theory Spec2Isabelle
  imports Complex_Main
begin

section \<open>JavaScript strings and numbers\<close>

text \<open>
  A JavaScript string is a sequence of UTF-16 code units; it is modelled as a list of
  natural numbers. \<open>str\<close> turns an ASCII literal into such a list. The symbols of the
  game that are not ASCII are written by their code units: U+2713 (check mark), U+2717
  (ballot x), U+2191 (upwards arrow), U+2193 (downwards arrow), U+274C (cross mark),
  and the surrogate pairs of U+1F389 (party popper) and U+1F31F (glowing star).

  The numbers of the game are integers: levels, attempts and scores are small integer
  literals, and a guess is what \<open>parseInt\<close> returns. \<open>parseInt\<close> returns a double; the
  model keeps the exact integer. Every use of the parsed guess is a comparison with a
  bound or a target between 1 and 100, rounding to a double is monotone and exact on
  integers up to 2^53, so each comparison has the same result on the exact integer.
  \<open>NaN\<close> is \<open>None\<close>.
\<close>

type_synonym jsstring = "nat list"

definition str :: "string \<Rightarrow> jsstring" where
  "str s = map of_char s"

subsection \<open>parseInt (one argument: radix undefined)\<close>

text \<open>
  ECMAScript \<open>parseInt(string)\<close>: strip leading white space and line terminators, read
  an optional sign, strip a \<open>0x\<close>/\<open>0X\<close> prefix (radix 16, otherwise radix 10), take the
  longest prefix of digits of that radix, and return \<open>NaN\<close> when it is empty.
\<close>

definition isWhiteSpace :: "nat \<Rightarrow> bool" where
  "isWhiteSpace c \<longleftrightarrow>
     c \<in> set [0x9, 0xA, 0xB, 0xC, 0xD, 0x20, 0xA0, 0x1680, 0x2028, 0x2029, 0x202F,
               0x205F, 0x3000, 0xFEFF]
     \<or> (0x2000 \<le> c \<and> c \<le> 0x200A)"

definition digitValue :: "nat \<Rightarrow> nat \<Rightarrow> nat option" where
  "digitValue R c =
     (let v = (if 48 \<le> c \<and> c \<le> 57 then Some (c - 48)
               else if 97 \<le> c \<and> c \<le> 122 then Some (c - 87)
               else if 65 \<le> c \<and> c \<le> 90 then Some (c - 55)
               else None)
      in case v of None \<Rightarrow> None | Some d \<Rightarrow> if d < R then Some d else None)"

fun digitPrefix :: "nat \<Rightarrow> jsstring \<Rightarrow> nat list" where
  "digitPrefix R [] = []"
| "digitPrefix R (c # cs) =
     (case digitValue R c of None \<Rightarrow> [] | Some d \<Rightarrow> d # digitPrefix R cs)"

definition mathInt :: "nat \<Rightarrow> nat list \<Rightarrow> nat" where
  "mathInt R ds = foldl (\<lambda>a d. a * R + d) 0 ds"

definition parseInt :: "jsstring \<Rightarrow> int option" where
  "parseInt inputString =
     (let S = dropWhile isWhiteSpace inputString;
          sign = (case S of c # _ \<Rightarrow> if c = 45 then - 1 else 1 | [] \<Rightarrow> (1::int));
          S = (case S of c # cs \<Rightarrow> if c = 43 \<or> c = 45 then cs else S | [] \<Rightarrow> S);
          hex = (take 2 S = str ''0x'' \<or> take 2 S = str ''0X'');
          R = (if hex then 16 else 10);
          S = (if hex then drop 2 S else S);
          Z = digitPrefix R S
      in if Z = [] then None else Some (sign * int (mathInt R Z)))"

subsection \<open>Numbers in template strings\<close>

text \<open>
  \<open>${n}\<close> for an integer \<open>n\<close> below 10^21 in magnitude is its decimal numeral, and
  \<open>${null}\<close> is \<open>null\<close>.
\<close>

fun digitsOf :: "nat \<Rightarrow> jsstring" where
  "digitsOf n = (if n < 10 then [48 + n] else digitsOf (n div 10) @ [48 + n mod 10])"

declare digitsOf.simps [simp del]

definition numberToString :: "int \<Rightarrow> jsstring" where
  "numberToString n = (if n < 0 then 45 # digitsOf (nat (- n)) else digitsOf (nat n))"

definition nullableToString :: "int option \<Rightarrow> jsstring" where
  "nullableToString v = (case v of None \<Rightarrow> str ''null'' | Some n \<Rightarrow> numberToString n)"

text \<open>\<open>guess < target\<close> where the target may be \<open>null\<close>: \<open>null\<close> converts to 0.\<close>

definition lessThanNullable :: "int \<Rightarrow> int option \<Rightarrow> bool" where
  "lessThanNullable g t = (case t of None \<Rightarrow> g < 0 | Some n \<Rightarrow> g < n)"

definition attemptWord :: "int \<Rightarrow> jsstring" where
  "attemptWord n = (if n = 1 then str ''attempt'' else str ''attempts'')"

section \<open>Game configuration (both files)\<close>

datatype level = easy | medium | hard

record LevelConfig =
  name :: jsstring
  min_cfg :: int
  max_cfg :: int
  maxAttempts :: int
  bonusThreshold :: int
  baseScore :: int
  bonusScore :: int

fun LEVELS :: "level \<Rightarrow> LevelConfig" where
  "LEVELS easy = \<lparr>name = str ''Easy'', min_cfg = 1, max_cfg = 50, maxAttempts = 10,
     bonusThreshold = 5, baseScore = 10, bonusScore = 5\<rparr>"
| "LEVELS medium = \<lparr>name = str ''Medium'', min_cfg = 1, max_cfg = 75, maxAttempts = 7,
     bonusThreshold = 4, baseScore = 10, bonusScore = 5\<rparr>"
| "LEVELS hard = \<lparr>name = str ''Hard'', min_cfg = 1, max_cfg = 100, maxAttempts = 5,
     bonusThreshold = 3, baseScore = 10, bonusScore = 5\<rparr>"

text \<open>
  \<open>getRandomNumber\<close>: \<open>Math.floor(Math.random() * (max - min + 1)) + min\<close>. The value
  \<open>u\<close> that \<open>Math.random()\<close> returned is a parameter; the product is taken exactly.
\<close>

definition getRandomNumber :: "int \<Rightarrow> int \<Rightarrow> real \<Rightarrow> int" where
  "getRandomNumber mn mx u = \<lfloor>u * real_of_int (mx - mn + 1)\<rfloor> + mn"

definition hintCorrect :: jsstring where "hintCorrect = [0x2713]"
definition hintExhausted :: jsstring where "hintExhausted = [0x2717]"
definition hintUp :: jsstring where "hintUp = [0x2191]"
definition hintDown :: jsstring where "hintDown = [0x2193]"

definition correctMessage :: "int \<Rightarrow> bool \<Rightarrow> jsstring" where
  "correctMessage attempts bonus =
     [0xD83C, 0xDF89] @ str '' Correct! You guessed it in '' @ numberToString attempts
       @ str '' '' @ attemptWord attempts @ str ''!''
       @ (if bonus then str '' Bonus score earned! '' @ [0xD83C, 0xDF1F] else [])"

definition gameOverMessage :: "int option \<Rightarrow> jsstring" where
  "gameOverMessage target =
     [0x274C] @ str '' Game Over! The number was '' @ nullableToString target"

definition hintMessage :: "int \<Rightarrow> jsstring \<Rightarrow> int \<Rightarrow> jsstring" where
  "hintMessage guess comparison attemptsLeft =
     str ''Your guess ('' @ numberToString guess @ str '') is '' @ comparison
       @ str '' than the number! '' @ numberToString attemptsLeft @ str '' ''
       @ attemptWord attemptsLeft @ str '' remaining''"

definition rangeMessage :: "LevelConfig \<Rightarrow> jsstring" where
  "rangeMessage config =
     str ''Number must be between '' @ numberToString (min_cfg config) @ str '' and ''
       @ numberToString (max_cfg config) @ str ''!''"

section \<open>The DOM script (src/unnamed/part\_000)\<close>

text \<open>
  The state is the global \<open>gameState\<close> object (the first six fields) and the parts of
  the document that the script reads back or that carry an outcome: the value of the
  guess input, the feedback element (text and class), the chips of the history
  container (each chip's text), the screen shown, the score text of the result screen,
  and the callbacks handed to \<open>setTimeout\<close> that have not run yet, each with the
  arguments of its \<open>showResultScreen\<close> call. The scoreboard and range labels are
  written from the state and never read; audio and theme are left out.
\<close>

datatype screenId = levelScreen | gameScreen | resultScreen

datatype exn = TypeError

record page =
  currentLevel :: "level option"
  targetNumber :: "int option"
  attemptsUsed :: int
  totalScore :: int
  guessHistory :: "(int \<times> jsstring) list"
  isGameActive :: bool
  inputValue :: jsstring
  feedbackText :: jsstring
  feedbackClass :: jsstring
  historyChips :: "jsstring list"
  shownScreen :: screenId
  scoreEarnedText :: jsstring
  timeouts :: "(bool \<times> int \<times> bool) list"

definition showScreen :: "screenId \<Rightarrow> page \<Rightarrow> page" where
  "showScreen screenId p = p\<lparr>shownScreen := screenId\<rparr>"

definition resetFeedback :: "page \<Rightarrow> page" where
  "resetFeedback p =
     p\<lparr>feedbackText := str ''Make your first guess!'',
       feedbackClass := str ''feedback-message''\<rparr>"

definition clearGuessHistory :: "page \<Rightarrow> page" where
  "clearGuessHistory p = p\<lparr>historyChips := []\<rparr>"

definition chipText :: "int \<Rightarrow> jsstring \<Rightarrow> jsstring" where
  "chipText guess hint = numberToString guess @ str '' '' @ hint"

definition addGuessToHistory :: "int \<Rightarrow> jsstring \<Rightarrow> page \<Rightarrow> page" where
  "addGuessToHistory guess hint p =
     p\<lparr>historyChips := historyChips p @ [chipText guess hint]\<rparr>"

definition showFeedback :: "jsstring \<Rightarrow> jsstring \<Rightarrow> page \<Rightarrow> page" where
  "showFeedback message type p =
     p\<lparr>feedbackText := message, feedbackClass := str ''feedback-message '' @ type\<rparr>"

definition setTimeout :: "bool \<times> int \<times> bool \<Rightarrow> page \<Rightarrow> page" where
  "setTimeout callback p = p\<lparr>timeouts := timeouts p @ [callback]\<rparr>"

definition startGame :: "level \<Rightarrow> real \<Rightarrow> page \<Rightarrow> page" where
  "startGame level u p =
     (let config = LEVELS level;
          p = p\<lparr>currentLevel := Some level,
                targetNumber := Some (getRandomNumber (min_cfg config) (max_cfg config) u),
                attemptsUsed := 0,
                guessHistory := [],
                isGameActive := True\<rparr>;
          p = resetFeedback p;
          p = clearGuessHistory p;
          p = showScreen gameScreen p
      in p\<lparr>inputValue := []\<rparr>)"

definition handleCorrectGuess :: "page \<Rightarrow> exn + page" where
  "handleCorrectGuess p =
     (case map_option LEVELS (currentLevel p) of
        None \<Rightarrow> Inl TypeError
      | Some config \<Rightarrow>
          (let p = p\<lparr>isGameActive := False\<rparr>;
               bonusEarned = (attemptsUsed p \<le> bonusThreshold config);
               scoreEarned = (if bonusEarned then baseScore config + bonusScore config
                              else baseScore config);
               p = p\<lparr>totalScore := totalScore p + scoreEarned\<rparr>;
               p = showFeedback (correctMessage (attemptsUsed p) bonusEarned) (str ''success'') p;
               p = (case targetNumber p of
                      None \<Rightarrow> p\<lparr>historyChips := historyChips p @ [str ''null '' @ hintCorrect]\<rparr>
                    | Some t \<Rightarrow> addGuessToHistory t hintCorrect p)
           in Inr (setTimeout (True, scoreEarned, bonusEarned) p)))"

definition handleIncorrectGuess :: "int \<Rightarrow> LevelConfig \<Rightarrow> page \<Rightarrow> page" where
  "handleIncorrectGuess guess config p =
     (let attemptsLeft = maxAttempts config - attemptsUsed p in
      if attemptsLeft = 0 then
        (let p = p\<lparr>isGameActive := False\<rparr>;
             p = showFeedback (gameOverMessage (targetNumber p)) (str ''error'') p;
             p = addGuessToHistory guess hintExhausted p
         in setTimeout (False, 0, False) p)
      else
        (let hint = (if lessThanNullable guess (targetNumber p) then hintUp else hintDown);
             comparison = (if lessThanNullable guess (targetNumber p) then str ''lower''
                           else str ''higher'');
             feedbackClass = (if attemptsLeft \<le> 2 then str ''warning'' else str ''info'');
             p = showFeedback (hintMessage guess comparison attemptsLeft) feedbackClass p
         in addGuessToHistory guess hint p))"

definition makeGuess :: "page \<Rightarrow> exn + page" where
  "makeGuess p =
     (if \<not> isGameActive p then Inr p
      else
        (case parseInt (inputValue p) of
           None \<Rightarrow> Inr (showFeedback (str ''Please enter a valid number!'') (str ''error'') p)
         | Some guess \<Rightarrow>
             (case map_option LEVELS (currentLevel p) of
                None \<Rightarrow> Inl TypeError
              | Some config \<Rightarrow>
                  if guess < min_cfg config \<or> guess > max_cfg config then
                    Inr (showFeedback (rangeMessage config) (str ''error'') p)
                  else
                    (let p = p\<lparr>attemptsUsed := attemptsUsed p + 1\<rparr> in
                     case (if Some guess = targetNumber p then handleCorrectGuess p
                           else Inr (handleIncorrectGuess guess config p)) of
                       Inl e \<Rightarrow> Inl e
                     | Inr p \<Rightarrow> Inr (p\<lparr>inputValue := []\<rparr>)))))"

definition showResultScreen :: "bool \<Rightarrow> int \<Rightarrow> bool \<Rightarrow> page \<Rightarrow> page" where
  "showResultScreen won scoreEarned bonusEarned p =
     showScreen resultScreen
       (p\<lparr>scoreEarnedText := (if won then str ''+'' @ numberToString scoreEarned
                               else str ''+0'')\<rparr>)"

definition changeLevel :: "page \<Rightarrow> page" where
  "changeLevel p = showScreen levelScreen (p\<lparr>currentLevel := None, isGameActive := False\<rparr>)"

text \<open>\<open>confirmed\<close> is the answer of the \<open>confirm\<close> dialog.\<close>

definition resetTotalScore :: "bool \<Rightarrow> page \<Rightarrow> page" where
  "resetTotalScore confirmed p = (if confirmed then p\<lparr>totalScore := 0\<rparr> else p)"

text \<open>
  \<open>playAgain\<close> and \<open>resetGame\<close> call \<open>startGame(gameState.currentLevel)\<close>. With no
  level selected, \<open>startGame\<close> stores \<open>null\<close> again and throws on \<open>config.min\<close>.
\<close>

definition playAgain :: "real \<Rightarrow> page \<Rightarrow> exn + page" where
  "playAgain u p =
     (case currentLevel p of None \<Rightarrow> Inl TypeError | Some l \<Rightarrow> Inr (startGame l u p))"

definition resetGame :: "bool \<Rightarrow> real \<Rightarrow> page \<Rightarrow> exn + page" where
  "resetGame confirmed u p = (if confirmed then playAgain u p else Inr p)"

text \<open>
  The script's initial \<open>gameState\<close>. The HTML document is not part of the sources: its
  elements start empty here and the level screen is shown.
\<close>

definition initialPage :: page where
  "initialPage =
     \<lparr>currentLevel = None, targetNumber = None, attemptsUsed = 0, totalScore = 0,
      guessHistory = [], isGameActive = False, inputValue = [], feedbackText = [],
      feedbackClass = [], historyChips = [], shownScreen = levelScreen,
      scoreEarnedText = [], timeouts = []\<rparr>"

subsection \<open>Events of the page\<close>

text \<open>
  What can happen to the page, in any order: the handlers above, typing into the guess
  input, and the oldest pending timeout running. An exception thrown by a handler ends
  that handler; where one is thrown the state is as before the call.
\<close>

datatype event =
    StartGame level real
  | PlayAgain real
  | ResetGame bool real
  | ChangeLevel
  | ResetTotalScore bool
  | TypeGuess jsstring
  | MakeGuess
  | Timeout

definition orUnchanged :: "page \<Rightarrow> exn + page \<Rightarrow> page" where
  "orUnchanged p r = (case r of Inl e \<Rightarrow> p | Inr q \<Rightarrow> q)"

fun step :: "page \<Rightarrow> event \<Rightarrow> page" where
  "step p (StartGame l u) = startGame l u p"
| "step p (PlayAgain u) = orUnchanged p (playAgain u p)"
| "step p (ResetGame c u) = orUnchanged p (resetGame c u p)"
| "step p ChangeLevel = changeLevel p"
| "step p (ResetTotalScore c) = resetTotalScore c p"
| "step p (TypeGuess s) = p\<lparr>inputValue := s\<rparr>"
| "step p MakeGuess = orUnchanged p (makeGuess p)"
| "step p Timeout =
     (case timeouts p of
        [] \<Rightarrow> p
      | (won, scoreEarned, bonusEarned) # rest \<Rightarrow>
          showResultScreen won scoreEarned bonusEarned (p\<lparr>timeouts := rest\<rparr>))"

definition run :: "page \<Rightarrow> event list \<Rightarrow> page" where
  "run p es = foldl step p es"

section \<open>The React component (src/app/components/Game.tsx)\<close>

text \<open>
  The state is the component's \<open>useState\<close> cells that the game logic touches, and the
  pending \<open>setTimeout\<close> callbacks with the values they captured. A handler sees the
  state of the latest render, and its \<open>set...\<close> calls are applied when it returns, so
  a handler is a function from the state before the event to the state after it.
  \<open>handleCorrectGuess\<close> and \<open>handleIncorrectGuess\<close> read \<open>targetNumber\<close> from the
  closure under a non-null assertion; \<open>handleGuess\<close> has checked it, and passes it here
  as the argument \<open>target\<close>. The component keeps no flag like \<open>isGameActive\<close>.
\<close>

datatype screen = onLevel | onGame | onResult

datatype feedbackType = success | error | warning | info

record game =
  currentScreen :: screen
  currentLevelR :: "level option"
  targetNumberR :: "int option"
  attemptsUsedR :: int
  totalScoreR :: int
  guessHistoryR :: "(int \<times> jsstring) list"
  guessInput :: jsstring
  feedbackMessage :: "jsstring \<times> feedbackType"
  resultData :: "bool \<times> int \<times> bool"
  timeoutsR :: "(bool \<times> int \<times> bool) list"

definition initialGame :: game where
  "initialGame =
     \<lparr>currentScreen = onLevel, currentLevelR = None, targetNumberR = None,
      attemptsUsedR = 0, totalScoreR = 0, guessHistoryR = [], guessInput = [],
      feedbackMessage = (str ''Make your first guess!'', info),
      resultData = (False, 0, False), timeoutsR = []\<rparr>"

definition startGameR :: "level \<Rightarrow> real \<Rightarrow> game \<Rightarrow> game" where
  "startGameR level u g =
     (let config = LEVELS level in
      g\<lparr>currentLevelR := Some level,
        targetNumberR := Some (getRandomNumber (min_cfg config) (max_cfg config) u),
        attemptsUsedR := 0,
        guessHistoryR := [],
        guessInput := [],
        feedbackMessage := (str ''Make your first guess!'', info),
        currentScreen := onGame\<rparr>)"

definition handleCorrectGuessR :: "int \<Rightarrow> int \<Rightarrow> LevelConfig \<Rightarrow> game \<Rightarrow> game" where
  "handleCorrectGuessR target attempts config g =
     (let bonus = (attempts \<le> bonusThreshold config);
          score = (if bonus then baseScore config + bonusScore config else baseScore config)
      in g\<lparr>totalScoreR := totalScoreR g + score,
           feedbackMessage := (correctMessage attempts bonus, success),
           guessHistoryR := guessHistoryR g @ [(target, hintCorrect)],
           timeoutsR := timeoutsR g @ [(True, score, bonus)]\<rparr>)"

definition handleIncorrectGuessR :: "int \<Rightarrow> int \<Rightarrow> int \<Rightarrow> LevelConfig \<Rightarrow> game \<Rightarrow> game" where
  "handleIncorrectGuessR target guess attempts config g =
     (let attemptsLeft = maxAttempts config - attempts in
      if attemptsLeft = 0 then
        g\<lparr>feedbackMessage := (gameOverMessage (Some target), error),
          guessHistoryR := guessHistoryR g @ [(guess, hintExhausted)],
          timeoutsR := timeoutsR g @ [(False, 0, False)]\<rparr>
      else
        (let hintArrow = (if guess < target then hintUp else hintDown);
             comparisonText = (if guess < target then str ''lower'' else str ''higher'');
             type = (if attemptsLeft \<le> 2 then warning else info)
         in g\<lparr>feedbackMessage := (hintMessage guess comparisonText attemptsLeft, type),
              guessHistoryR := guessHistoryR g @ [(guess, hintArrow)]\<rparr>))"

definition handleGuess :: "game \<Rightarrow> game" where
  "handleGuess g =
     (case currentLevelR g of
        None \<Rightarrow> g
      | Some lvl \<Rightarrow>
          (case targetNumberR g of
             None \<Rightarrow> g
           | Some target \<Rightarrow>
               (let config = LEVELS lvl in
                case parseInt (guessInput g) of
                  None \<Rightarrow> g\<lparr>feedbackMessage := (str ''Please enter a valid number!'', error)\<rparr>
                | Some guess \<Rightarrow>
                    if guess < min_cfg config \<or> guess > max_cfg config then
                      g\<lparr>feedbackMessage := (rangeMessage config, error)\<rparr>
                    else
                      (let newAttempts = attemptsUsedR g + 1;
                           g = g\<lparr>attemptsUsedR := newAttempts\<rparr>;
                           g = (if guess = target
                                then handleCorrectGuessR target newAttempts config g
                                else handleIncorrectGuessR target guess newAttempts config g)
                       in g\<lparr>guessInput := []\<rparr>))))"

subsection \<open>Events of the component\<close>

text \<open>
  An event reaches a handler only through an element that is rendered: the level cards
  on the level screen; the guess input, the submit button, Restart and Change Level on
  the game screen (rendered when \<open>currentScreen === 'game' && currentLevel\<close>); Play
  Again and Change Level on the result screen. The timeout callback sets \<open>resultData\<close>
  and switches to the result screen.
\<close>

datatype eventR =
    ClickLevel level real
  | ChangeInput jsstring
  | SubmitGuess
  | ClickRestart bool real
  | ClickChangeLevel
  | ClickPlayAgain real
  | TimeoutR

definition gameRendered :: "game \<Rightarrow> bool" where
  "gameRendered g \<longleftrightarrow> currentScreen g = onGame \<and> currentLevelR g \<noteq> None"

fun stepR :: "game \<Rightarrow> eventR \<Rightarrow> game" where
  "stepR g (ClickLevel l u) = (if currentScreen g = onLevel then startGameR l u g else g)"
| "stepR g (ChangeInput s) = (if gameRendered g then g\<lparr>guessInput := s\<rparr> else g)"
| "stepR g SubmitGuess = (if gameRendered g then handleGuess g else g)"
| "stepR g (ClickRestart confirmed u) =
     (if gameRendered g \<and> confirmed
      then (case currentLevelR g of None \<Rightarrow> g | Some l \<Rightarrow> startGameR l u g) else g)"
| "stepR g ClickChangeLevel =
     (if gameRendered g \<or> currentScreen g = onResult then g\<lparr>currentScreen := onLevel\<rparr>
      else g)"
| "stepR g (ClickPlayAgain u) =
     (if currentScreen g = onResult
      then (case currentLevelR g of None \<Rightarrow> g | Some l \<Rightarrow> startGameR l u g) else g)"
| "stepR g TimeoutR =
     (case timeoutsR g of
        [] \<Rightarrow> g
      | callback # rest \<Rightarrow>
          g\<lparr>timeoutsR := rest, resultData := callback, currentScreen := onResult\<rparr>)"

definition runR :: "game \<Rightarrow> eventR list \<Rightarrow> game" where
  "runR g es = foldl stepR g es"

section \<open>Notions used in the statements\<close>

text \<open>
  A raw input counts as an attempt when it parses to a number within the bounds of the
  selected level.
\<close>

definition consumesAttempt :: "level option \<Rightarrow> jsstring \<Rightarrow> bool" where
  "consumesAttempt lvl raw =
     (case lvl of
        None \<Rightarrow> False
      | Some l \<Rightarrow>
          (case parseInt raw of
             None \<Rightarrow> False
           | Some v \<Rightarrow> min_cfg (LEVELS l) \<le> v \<and> v \<le> max_cfg (LEVELS l)))"

text \<open>
  The bound on the attempts of the DOM script: with a level selected, \<open>attemptsUsed\<close>
  is at most \<open>maxAttempts\<close>, and below it while the game is active.
\<close>

definition attemptsWithinLimit :: "page \<Rightarrow> bool" where
  "attemptsWithinLimit p =
     (case currentLevel p of
        None \<Rightarrow> \<not> isGameActive p
      | Some l \<Rightarrow>
          if isGameActive p then attemptsUsed p < maxAttempts (LEVELS l)
          else attemptsUsed p \<le> maxAttempts (LEVELS l))"





text \<open>
  Concrete sessions: an easy game with target 25 (\<open>Math.random()\<close> returned 12/25)
  in both implementations, with \<open>raw\<close> typed into the guess input; and the component
  after a hard game with target 7 was started and the given guesses were typed and
  submitted, one after the other, each through the rendered input and button, with no
  timeout having run yet.
\<close>

definition easyPage :: "jsstring \<Rightarrow> page" where
  "easyPage raw = step (step initialPage (StartGame easy (12 / 25))) (TypeGuess raw)"

definition easyGame :: "jsstring \<Rightarrow> game" where
  "easyGame raw = stepR (stepR initialGame (ClickLevel easy (12 / 25))) (ChangeInput raw)"

definition typeAndSubmit :: "string \<Rightarrow> eventR list" where
  "typeAndSubmit s = [ChangeInput (str s), SubmitGuess]"

definition hardGameAfter :: "string list \<Rightarrow> game" where
  "hardGameAfter guesses =
     runR initialGame (ClickLevel hard (3 / 50) # concat (map typeAndSubmit guesses))"

section \<open>The branches of makeGuess\<close>

lemmas dom_ui = showFeedback_def addGuessToHistory_def setTimeout_def showScreen_def
  resetFeedback_def clearGuessHistory_def

lemma makeGuess_inactive: "\<not> isGameActive p \<Longrightarrow> makeGuess p = Inr p"
  by (simp add: makeGuess_def)

lemma makeGuess_invalid:
  "isGameActive p \<Longrightarrow> parseInt (inputValue p) = None \<Longrightarrow>
   makeGuess p = Inr (showFeedback (str ''Please enter a valid number!'') (str ''error'') p)"
  by (simp add: makeGuess_def)

lemma makeGuess_out_of_range:
  "isGameActive p \<Longrightarrow> currentLevel p = Some l \<Longrightarrow> parseInt (inputValue p) = Some v \<Longrightarrow>
   v < min_cfg (LEVELS l) \<or> v > max_cfg (LEVELS l) \<Longrightarrow>
   makeGuess p = Inr (showFeedback (rangeMessage (LEVELS l)) (str ''error'') p)"
  by (simp add: makeGuess_def)

lemma makeGuess_correct:
  "isGameActive p \<Longrightarrow> currentLevel p = Some l \<Longrightarrow> parseInt (inputValue p) = Some v \<Longrightarrow>
   min_cfg (LEVELS l) \<le> v \<Longrightarrow> v \<le> max_cfg (LEVELS l) \<Longrightarrow> targetNumber p = Some v \<Longrightarrow>
   makeGuess p =
     (case handleCorrectGuess (p\<lparr>attemptsUsed := attemptsUsed p + 1\<rparr>) of
        Inl e \<Rightarrow> Inl e | Inr q \<Rightarrow> Inr (q\<lparr>inputValue := []\<rparr>))"
  by (simp add: makeGuess_def Let_def)

lemma makeGuess_incorrect:
  "isGameActive p \<Longrightarrow> currentLevel p = Some l \<Longrightarrow> parseInt (inputValue p) = Some v \<Longrightarrow>
   min_cfg (LEVELS l) \<le> v \<Longrightarrow> v \<le> max_cfg (LEVELS l) \<Longrightarrow> targetNumber p \<noteq> Some v \<Longrightarrow>
   makeGuess p =
     Inr ((handleIncorrectGuess v (LEVELS l) (p\<lparr>attemptsUsed := attemptsUsed p + 1\<rparr>))
            \<lparr>inputValue := []\<rparr>)"
  by (auto simp add: makeGuess_def Let_def)

text \<open>
  The only throw of \<open>makeGuess\<close> is at the range check, on an active session with no
  level, before anything is written: the state is then as before the call.
\<close>

lemma makeGuess_throws:
  "makeGuess p = Inl e \<Longrightarrow>
   isGameActive p \<and> currentLevel p = None \<and> parseInt (inputValue p) \<noteq> None"
  by (auto simp add: makeGuess_def handleCorrectGuess_def Let_def
      split: if_splits option.splits sum.splits)

section \<open>The branches of handleGuess\<close>

lemma handleGuess_no_session:
  "currentLevelR g = None \<or> targetNumberR g = None \<Longrightarrow> handleGuess g = g"
  by (auto simp add: handleGuess_def split: option.splits)

lemma handleGuess_invalid:
  "currentLevelR g = Some l \<Longrightarrow> targetNumberR g = Some t \<Longrightarrow>
   parseInt (guessInput g) = None \<Longrightarrow>
   handleGuess g = g\<lparr>feedbackMessage := (str ''Please enter a valid number!'', error)\<rparr>"
  by (simp add: handleGuess_def)

lemma handleGuess_out_of_range:
  "currentLevelR g = Some l \<Longrightarrow> targetNumberR g = Some t \<Longrightarrow>
   parseInt (guessInput g) = Some v \<Longrightarrow>
   v < min_cfg (LEVELS l) \<or> v > max_cfg (LEVELS l) \<Longrightarrow>
   handleGuess g = g\<lparr>feedbackMessage := (rangeMessage (LEVELS l), error)\<rparr>"
  by (simp add: handleGuess_def)

lemma handleGuess_correct:
  "currentLevelR g = Some l \<Longrightarrow> targetNumberR g = Some t \<Longrightarrow>
   parseInt (guessInput g) = Some t \<Longrightarrow>
   min_cfg (LEVELS l) \<le> t \<Longrightarrow> t \<le> max_cfg (LEVELS l) \<Longrightarrow>
   handleGuess g =
     (handleCorrectGuessR t (attemptsUsedR g + 1) (LEVELS l)
        (g\<lparr>attemptsUsedR := attemptsUsedR g + 1\<rparr>))\<lparr>guessInput := []\<rparr>"
  by (simp add: handleGuess_def Let_def)

lemma handleGuess_incorrect:
  "currentLevelR g = Some l \<Longrightarrow> targetNumberR g = Some t \<Longrightarrow>
   parseInt (guessInput g) = Some v \<Longrightarrow>
   min_cfg (LEVELS l) \<le> v \<Longrightarrow> v \<le> max_cfg (LEVELS l) \<Longrightarrow> v \<noteq> t \<Longrightarrow>
   handleGuess g =
     (handleIncorrectGuessR t v (attemptsUsedR g + 1) (LEVELS l)
        (g\<lparr>attemptsUsedR := attemptsUsedR g + 1\<rparr>))\<lparr>guessInput := []\<rparr>"
  by (simp add: handleGuess_def Let_def)

section \<open>Messages and hints\<close>

lemma rangeMessage_text:
  "rangeMessage (LEVELS easy) = str ''Number must be between 1 and 50!''"
  "rangeMessage (LEVELS medium) = str ''Number must be between 1 and 75!''"
  "rangeMessage (LEVELS hard) = str ''Number must be between 1 and 100!''"
  by (simp_all add: rangeMessage_def numberToString_def digitsOf.simps str_def)

section \<open>Wrong guesses and wins in the DOM script\<close>

lemma handleIncorrectGuess_miss:
  "maxAttempts config - attemptsUsed p \<noteq> 0 \<Longrightarrow> targetNumber p = Some t \<Longrightarrow>
   handleIncorrectGuess v config p =
     p\<lparr>feedbackText := hintMessage v (if v < t then str ''lower'' else str ''higher'')
                          (maxAttempts config - attemptsUsed p),
       feedbackClass := str ''feedback-message ''
          @ (if maxAttempts config - attemptsUsed p \<le> 2 then str ''warning'' else str ''info''),
       historyChips := historyChips p @ [chipText v (if v < t then hintUp else hintDown)]\<rparr>"
  by (simp add: handleIncorrectGuess_def Let_def dom_ui lessThanNullable_def)

lemma handleIncorrectGuess_lost:
  "maxAttempts config - attemptsUsed p = 0 \<Longrightarrow>
   handleIncorrectGuess v config p =
     p\<lparr>isGameActive := False,
       feedbackText := gameOverMessage (targetNumber p),
       feedbackClass := str ''feedback-message '' @ str ''error'',
       historyChips := historyChips p @ [chipText v hintExhausted],
       timeouts := timeouts p @ [(False, 0, False)]\<rparr>"
  by (simp add: handleIncorrectGuess_def Let_def dom_ui)

lemma hints_distinct:
  "hintUp \<noteq> hintDown" "hintExhausted \<noteq> hintUp" "hintExhausted \<noteq> hintDown"
  "hintExhausted \<noteq> hintCorrect" "hintCorrect \<noteq> hintUp" "hintCorrect \<noteq> hintDown"
  by (simp_all add: hintUp_def hintDown_def hintExhausted_def hintCorrect_def)

section \<open>Starting a game\<close>



section \<open>History and attempts move together\<close>

lemma makeGuess_counts:
  "attemptsUsed (orUnchanged p (makeGuess p)) =
     attemptsUsed p
       + (if isGameActive p \<and> consumesAttempt (currentLevel p) (inputValue p) then 1 else 0)
   \<and> length (historyChips (orUnchanged p (makeGuess p))) =
     length (historyChips p)
       + (if isGameActive p \<and> consumesAttempt (currentLevel p) (inputValue p) then 1 else 0)"
  by (auto simp add: makeGuess_def handleCorrectGuess_def handleIncorrectGuess_def Let_def
      dom_ui orUnchanged_def consumesAttempt_def split: option.splits)

lemma handleGuess_counts:
  "attemptsUsedR (handleGuess g) =
     attemptsUsedR g
       + (if targetNumberR g \<noteq> None \<and> consumesAttempt (currentLevelR g) (guessInput g)
          then 1 else 0)
   \<and> length (guessHistoryR (handleGuess g)) =
     length (guessHistoryR g)
       + (if targetNumberR g \<noteq> None \<and> consumesAttempt (currentLevelR g) (guessInput g)
          then 1 else 0)"
  by (auto simp add: handleGuess_def handleCorrectGuessR_def handleIncorrectGuessR_def Let_def
      consumesAttempt_def split: option.splits)

lemma startGame_counts:
  "attemptsUsed (startGame l u p) = 0 \<and> historyChips (startGame l u p) = []"
  by (simp add: startGame_def Let_def dom_ui)

lemma startGameR_counts:
  "attemptsUsedR (startGameR l u g) = 0 \<and> guessHistoryR (startGameR l u g) = []"
  by (simp add: startGameR_def Let_def)

lemma step_keeps_count:
  assumes "int (length (historyChips p)) = attemptsUsed p"
  shows "int (length (historyChips (step p e))) = attemptsUsed (step p e)"
proof (cases e)
  case (StartGame l u)
  then show ?thesis by (simp add: startGame_counts)
next
  case (PlayAgain u)
  then show ?thesis using assms
    by (simp add: orUnchanged_def playAgain_def startGame_counts split: option.splits)
next
  case (ResetGame c u)
  then show ?thesis using assms
    by (simp add: orUnchanged_def resetGame_def playAgain_def startGame_counts
        split: option.splits)
next
  case ChangeLevel
  then show ?thesis using assms by (simp add: changeLevel_def dom_ui)
next
  case (ResetTotalScore c)
  then show ?thesis using assms by (simp add: resetTotalScore_def)
next
  case (TypeGuess s)
  then show ?thesis using assms by simp
next
  case MakeGuess
  then show ?thesis using assms makeGuess_counts [of p] by simp
next
  case Timeout
  then show ?thesis using assms
    by (simp add: showResultScreen_def dom_ui split: list.splits)
qed

lemma run_keeps_count:
  "int (length (historyChips p)) = attemptsUsed p \<Longrightarrow>
   int (length (historyChips (run p es))) = attemptsUsed (run p es)"
  unfolding run_def
  by (induction es arbitrary: p) (simp_all add: step_keeps_count)

lemma stepR_keeps_count:
  assumes "int (length (guessHistoryR g)) = attemptsUsedR g"
  shows "int (length (guessHistoryR (stepR g e))) = attemptsUsedR (stepR g e)"
proof (cases e)
  case SubmitGuess
  then show ?thesis using assms handleGuess_counts [of g] by simp
next
  case TimeoutR
  then show ?thesis using assms by (simp split: list.splits)
qed (use assms in \<open>simp_all add: startGameR_counts split: option.splits\<close>)

lemma runR_keeps_count:
  "int (length (guessHistoryR g)) = attemptsUsedR g \<Longrightarrow>
   int (length (guessHistoryR (runR g es))) = attemptsUsedR (runR g es)"
  unfolding runR_def
  by (induction es arbitrary: g) (simp_all add: stepR_keeps_count)

section \<open>The attempt limit of the DOM script\<close>

text \<open>
  The DOM script keeps \<open>isGameActive\<close>, and with it the limit: along every sequence of
  events after a \<open>startGame\<close>, \<open>attemptsUsed\<close> never exceeds \<open>maxAttempts\<close>, a game
  with no attempt left is inactive, the last wrong guess ends the game as lost, a
  correct guess ends it as won, and \<open>makeGuess\<close> on an inactive game returns the page
  as it is (\<open>makeGuess_inactive\<close>).
\<close>

lemma maxAttempts_pos: "0 < maxAttempts (LEVELS l)"
  by (cases l) simp_all

lemma startGame_within: "attemptsWithinLimit (startGame l u p)"
  by (simp add: attemptsWithinLimit_def startGame_def Let_def dom_ui maxAttempts_pos)

lemma makeGuess_within:
  "attemptsWithinLimit p \<Longrightarrow> attemptsWithinLimit (orUnchanged p (makeGuess p))"
  by (auto simp add: attemptsWithinLimit_def makeGuess_def handleCorrectGuess_def
      handleIncorrectGuess_def Let_def dom_ui orUnchanged_def
      split: option.splits if_splits)

lemma step_within:
  assumes "attemptsWithinLimit p"
  shows "attemptsWithinLimit (step p e)"
proof (cases e)
  case (StartGame l u)
  then show ?thesis by (simp add: startGame_within)
next
  case (PlayAgain u)
  then show ?thesis using assms
    by (simp add: orUnchanged_def playAgain_def startGame_within split: option.splits)
next
  case (ResetGame c u)
  then show ?thesis using assms
    by (simp add: orUnchanged_def resetGame_def playAgain_def startGame_within
        split: option.splits)
next
  case ChangeLevel
  then show ?thesis by (simp add: attemptsWithinLimit_def changeLevel_def dom_ui)
next
  case (ResetTotalScore c)
  then show ?thesis using assms
    by (auto simp add: attemptsWithinLimit_def resetTotalScore_def split: option.splits)
next
  case (TypeGuess s)
  then show ?thesis using assms
    by (auto simp add: attemptsWithinLimit_def split: option.splits)
next
  case MakeGuess
  then show ?thesis using assms by (simp add: makeGuess_within)
next
  case Timeout
  then show ?thesis using assms
    by (auto simp add: attemptsWithinLimit_def showResultScreen_def dom_ui
        split: list.splits option.splits)
qed

lemma run_within: "attemptsWithinLimit p \<Longrightarrow> attemptsWithinLimit (run p es)"
  unfolding run_def
  by (induction es arbitrary: p) (simp_all add: step_within)

lemma script_attempts_never_exceed:
  assumes "q = run (startGame l u p) es" and "currentLevel q = Some k"
  shows "attemptsUsed q \<le> maxAttempts (LEVELS k)
     \<and> (attemptsUsed q = maxAttempts (LEVELS k) \<longrightarrow> \<not> isGameActive q)"
proof -
  have "attemptsWithinLimit q"
    unfolding assms(1) by (rule run_within) (rule startGame_within)
  then show ?thesis using assms(2)
    by (auto simp add: attemptsWithinLimit_def split: if_splits)
qed

lemma script_last_wrong_guess_loses:
  assumes "isGameActive p" and "currentLevel p = Some l"
    and "parseInt (inputValue p) = Some v"
    and "min_cfg (LEVELS l) \<le> v" and "v \<le> max_cfg (LEVELS l)"
    and "targetNumber p \<noteq> Some v"
    and "attemptsUsed p + 1 = maxAttempts (LEVELS l)"
  shows "makeGuess p =
     Inr (p\<lparr>attemptsUsed := maxAttempts (LEVELS l),
             isGameActive := False,
             feedbackText := gameOverMessage (targetNumber p),
             feedbackClass := str ''feedback-message error'',
             historyChips := historyChips p @ [chipText v hintExhausted],
             timeouts := timeouts p @ [(False, 0, False)],
             inputValue := []\<rparr>)"
proof -
  have cls: "str ''feedback-message '' @ str ''error'' = str ''feedback-message error''"
    by (simp add: str_def)
  have left: "maxAttempts (LEVELS l) - attemptsUsed (p\<lparr>attemptsUsed := attemptsUsed p + 1\<rparr>) = 0"
    using assms(7) by simp
  have "makeGuess p =
      Inr ((handleIncorrectGuess v (LEVELS l) (p\<lparr>attemptsUsed := attemptsUsed p + 1\<rparr>))
             \<lparr>inputValue := []\<rparr>)"
    by (rule makeGuess_incorrect [OF assms(1-6)])
  also have "handleIncorrectGuess v (LEVELS l) (p\<lparr>attemptsUsed := attemptsUsed p + 1\<rparr>) =
      p\<lparr>attemptsUsed := attemptsUsed p + 1,
        isGameActive := False,
        feedbackText := gameOverMessage (targetNumber p),
        feedbackClass := str ''feedback-message error'',
        historyChips := historyChips p @ [chipText v hintExhausted],
        timeouts := timeouts p @ [(False, 0, False)]\<rparr>"
    by (simp add: handleIncorrectGuess_lost [OF left] cls)
  finally show ?thesis
    by (simp add: assms(7))
qed

lemma script_correct_guess_wins:
  assumes "isGameActive p" and "currentLevel p = Some l"
    and "parseInt (inputValue p) = Some v"
    and "min_cfg (LEVELS l) \<le> v" and "v \<le> max_cfg (LEVELS l)"
    and "targetNumber p = Some v"
  shows "makeGuess p =
     Inr (let bonusEarned = (attemptsUsed p + 1 \<le> bonusThreshold (LEVELS l));
              scoreEarned = (if bonusEarned then baseScore (LEVELS l) + bonusScore (LEVELS l)
                             else baseScore (LEVELS l))
          in p\<lparr>attemptsUsed := attemptsUsed p + 1,
               isGameActive := False,
               totalScore := totalScore p + scoreEarned,
               feedbackText := correctMessage (attemptsUsed p + 1) bonusEarned,
               feedbackClass := str ''feedback-message success'',
               historyChips := historyChips p @ [chipText v hintCorrect],
               timeouts := timeouts p @ [(True, scoreEarned, bonusEarned)],
               inputValue := []\<rparr>)"
proof -
  have cls: "str ''feedback-message '' @ str ''success'' = str ''feedback-message success''"
    by (simp add: str_def)
  show ?thesis
    using assms(2,6)
    by (simp add: makeGuess_correct [OF assms] handleCorrectGuess_def Let_def dom_ui cls)
qed

section \<open>parseInt on decimal numerals\<close>














section \<open>Concrete sessions\<close>

lemmas evals = parseInt_def str_def isWhiteSpace_def digitValue_def mathInt_def
  numberToString_def digitsOf.simps getRandomNumber_def

lemmas react_defs = initialGame_def startGameR_def gameRendered_def handleGuess_def
  handleCorrectGuessR_def handleIncorrectGuessR_def runR_def typeAndSubmit_def
  hardGameAfter_def

lemma easyPage_eval:
  "easyPage raw =
     \<lparr>currentLevel = Some easy, targetNumber = Some 25, attemptsUsed = 0, totalScore = 0,
      guessHistory = [], isGameActive = True, inputValue = raw,
      feedbackText = str ''Make your first guess!'', feedbackClass = str ''feedback-message'',
      historyChips = [], shownScreen = gameScreen, scoreEarnedText = [], timeouts = []\<rparr>"
  by (simp add: easyPage_def initialPage_def startGame_def Let_def dom_ui getRandomNumber_def)

lemma easyGame_eval:
  "easyGame raw =
     \<lparr>currentScreen = onGame, currentLevelR = Some easy, targetNumberR = Some 25,
      attemptsUsedR = 0, totalScoreR = 0, guessHistoryR = [], guessInput = raw,
      feedbackMessage = (str ''Make your first guess!'', info),
      resultData = (False, 0, False), timeoutsR = []\<rparr>"
  by (simp add: easyGame_def initialGame_def startGameR_def Let_def gameRendered_def
      getRandomNumber_def)

lemma parse_examples:
  "parseInt (str ''abc'') = None" "parseInt (str ''51'') = Some 51"
  "parseInt (str ''10'') = Some 10" "parseInt (str ''.7'') = None"
  "parseInt (str ''3.7'') = Some 3" "parseInt (str ''3'') = Some 3"
  by (simp_all add: evals)

section \<open>Ends of a game in both implementations\<close>

lemma script_inactive_states:
  "\<not> isGameActive initialPage"
  "\<not> isGameActive (changeLevel p)"
  by (simp_all add: initialPage_def changeLevel_def dom_ui)

lemma component_correct_guess:
  assumes "currentLevelR g = Some l" and "targetNumberR g = Some t"
    and "parseInt (guessInput g) = Some t"
    and "min_cfg (LEVELS l) \<le> t" and "t \<le> max_cfg (LEVELS l)"
  shows "handleGuess g =
     (let bonus = (attemptsUsedR g + 1 \<le> bonusThreshold (LEVELS l));
          score = (if bonus then baseScore (LEVELS l) + bonusScore (LEVELS l)
                   else baseScore (LEVELS l))
      in g\<lparr>attemptsUsedR := attemptsUsedR g + 1,
           totalScoreR := totalScoreR g + score,
           feedbackMessage := (correctMessage (attemptsUsedR g + 1) bonus, success),
           guessHistoryR := guessHistoryR g @ [(t, hintCorrect)],
           timeoutsR := timeoutsR g @ [(True, score, bonus)],
           guessInput := []\<rparr>)"
  by (simp add: handleGuess_correct [OF assms] handleCorrectGuessR_def Let_def)

lemma component_last_wrong_guess:
  assumes "currentLevelR g = Some l" and "targetNumberR g = Some t"
    and "parseInt (guessInput g) = Some v"
    and "min_cfg (LEVELS l) \<le> v" and "v \<le> max_cfg (LEVELS l)" and "v \<noteq> t"
    and "attemptsUsedR g + 1 = maxAttempts (LEVELS l)"
  shows "handleGuess g =
     g\<lparr>attemptsUsedR := attemptsUsedR g + 1,
       feedbackMessage := (gameOverMessage (Some t), error),
       guessHistoryR := guessHistoryR g @ [(v, hintExhausted)],
       timeoutsR := timeoutsR g @ [(False, 0, False)],
       guessInput := []\<rparr>"
  using assms(7)
  by (simp add: handleGuess_incorrect [OF assms(1-6)] handleIncorrectGuessR_def Let_def)

section \<open>Claims\<close>

text \<open>
  C1. The attempt limit. The DOM script keeps it (\<open>script_attempts_never_exceed\<close>,
  \<open>script_last_wrong_guess_loses\<close>). The React component does not: in a hard game
  (5 attempts, target 7) the fifth wrong guess ends the game, yet the game screen stays
  rendered until the timeout runs, and a sixth guess submitted before that is counted:
  \<open>attemptsUsed\<close> is 6, above \<open>maxAttempts\<close>.
\<close>

theorem component_attempts_exceed_limit:
  "targetNumberR (hardGameAfter [''1'', ''2'', ''3'', ''4'', ''5'']) = Some 7
   \<and> attemptsUsedR (hardGameAfter [''1'', ''2'', ''3'', ''4'', ''5'']) = 5
   \<and> maxAttempts (LEVELS hard) = 5
   \<and> gameRendered (hardGameAfter [''1'', ''2'', ''3'', ''4'', ''5''])
   \<and> attemptsUsedR (hardGameAfter [''1'', ''2'', ''3'', ''4'', ''5'', ''6'']) = 6"
  by (simp add: react_defs evals Let_def)

text \<open>
  C2. A guess on a finished session. In the DOM script \<open>makeGuess\<close> returns the page
  unchanged when \<open>isGameActive\<close> is false (\<open>makeGuess_inactive\<close>), which is the case
  before any game, after a win, after a loss and after \<open>changeLevel\<close>. The React
  component has no such guard: after the winning guess of a hard game (score 15), the
  same guess submitted again before the timeout runs is evaluated and scores again:
  the total is 30, two attempts are counted and the history has two entries.
\<close>

theorem component_guess_after_win_scores_again:
  "timeoutsR (hardGameAfter [''7'']) = [(True, 15, True)]
   \<and> totalScoreR (hardGameAfter [''7'']) = 15
   \<and> totalScoreR (hardGameAfter [''7'', ''7'']) = 30
   \<and> attemptsUsedR (hardGameAfter [''7'', ''7'']) = 2
   \<and> guessHistoryR (hardGameAfter [''7'', ''7'']) = [(7, hintCorrect), (7, hintCorrect)]"
  by (simp add: react_defs evals Let_def)

text \<open>
  C3. Rejected input. On an active session, input that \<open>parseInt\<close> does not read as a
  number gives the message "Please enter a valid number!", and a number outside the
  bounds of the level gives "Number must be between {min} and {max}!". In both cases
  the state after the call is the state before it with the feedback replaced and
  nothing else: \<open>attemptsUsed\<close>, the history, the active flag, the target and
  \<open>totalScore\<close> are unchanged, in the DOM script and in the React component.
\<close>

theorem rejected_guess_consumes_nothing:
  assumes "isGameActive p" and "currentLevel p = Some l"
    and "currentLevelR g = Some l" and "targetNumberR g = Some t"
  shows
    "(parseInt (inputValue p) = None \<longrightarrow>
        makeGuess p = Inr (p\<lparr>feedbackText := str ''Please enter a valid number!'',
                              feedbackClass := str ''feedback-message error''\<rparr>))
     \<and> (\<forall>v. parseInt (inputValue p) = Some v
            \<and> (v < min_cfg (LEVELS l) \<or> max_cfg (LEVELS l) < v) \<longrightarrow>
        makeGuess p =
          Inr (p\<lparr>feedbackText := str ''Number must be between ''
                     @ numberToString (min_cfg (LEVELS l)) @ str '' and ''
                     @ numberToString (max_cfg (LEVELS l)) @ str ''!'',
                  feedbackClass := str ''feedback-message error''\<rparr>))
     \<and> (parseInt (guessInput g) = None \<longrightarrow>
        handleGuess g = g\<lparr>feedbackMessage := (str ''Please enter a valid number!'', error)\<rparr>)
     \<and> (\<forall>v. parseInt (guessInput g) = Some v
            \<and> (v < min_cfg (LEVELS l) \<or> max_cfg (LEVELS l) < v) \<longrightarrow>
        handleGuess g =
          g\<lparr>feedbackMessage := (str ''Number must be between ''
                     @ numberToString (min_cfg (LEVELS l)) @ str '' and ''
                     @ numberToString (max_cfg (LEVELS l)) @ str ''!'', error)\<rparr>)"
proof -
  have cls: "str ''feedback-message '' @ str ''error'' = str ''feedback-message error''"
    by (simp add: str_def)
  have dom_invalid: "parseInt (inputValue p) = None \<Longrightarrow>
      makeGuess p = Inr (p\<lparr>feedbackText := str ''Please enter a valid number!'',
                            feedbackClass := str ''feedback-message error''\<rparr>)"
    using assms(1) by (simp add: makeGuess_invalid showFeedback_def cls)
  have dom_range: "\<And>v. parseInt (inputValue p) = Some v \<Longrightarrow>
      v < min_cfg (LEVELS l) \<or> max_cfg (LEVELS l) < v \<Longrightarrow>
      makeGuess p = Inr (p\<lparr>feedbackText := rangeMessage (LEVELS l),
                            feedbackClass := str ''feedback-message error''\<rparr>)"
    using assms(1,2) by (simp add: makeGuess_out_of_range showFeedback_def cls)
  have react_invalid: "parseInt (guessInput g) = None \<Longrightarrow>
      handleGuess g = g\<lparr>feedbackMessage := (str ''Please enter a valid number!'', error)\<rparr>"
    using assms(3,4) by (rule handleGuess_invalid)
  have react_range: "\<And>v. parseInt (guessInput g) = Some v \<Longrightarrow>
      v < min_cfg (LEVELS l) \<or> max_cfg (LEVELS l) < v \<Longrightarrow>
      handleGuess g = g\<lparr>feedbackMessage := (rangeMessage (LEVELS l), error)\<rparr>"
    using assms(3,4) by (simp add: handleGuess_out_of_range)
  show ?thesis
    using dom_invalid dom_range react_invalid react_range
    unfolding rangeMessage_def by blast
qed

text \<open>
  At the easy game with target 25: "abc" is not a number and 51 is out of range.
\<close>

theorem rejected_guess_witness:
  "makeGuess (easyPage (str ''abc'')) =
     Inr ((easyPage (str ''abc''))\<lparr>feedbackText := str ''Please enter a valid number!'',
                                    feedbackClass := str ''feedback-message error''\<rparr>)
   \<and> makeGuess (easyPage (str ''51'')) =
     Inr ((easyPage (str ''51''))\<lparr>feedbackText := str ''Number must be between 1 and 50!'',
                                   feedbackClass := str ''feedback-message error''\<rparr>)
   \<and> handleGuess (easyGame (str ''abc'')) =
     (easyGame (str ''abc''))\<lparr>feedbackMessage := (str ''Please enter a valid number!'', error)\<rparr>
   \<and> handleGuess (easyGame (str ''51'')) =
     (easyGame (str ''51''))
       \<lparr>feedbackMessage := (str ''Number must be between 1 and 50!'', error)\<rparr>"
proof -
  have h: "isGameActive (easyPage raw)" "currentLevel (easyPage raw) = Some easy"
    "currentLevelR (easyGame raw) = Some easy" "targetNumberR (easyGame raw) = Some 25"
    "inputValue (easyPage raw) = raw" "guessInput (easyGame raw) = raw" for raw
    by (simp_all add: easyPage_eval easyGame_eval)
  have msg: "str ''Number must be between '' @ numberToString 1
      @ str '' and '' @ numberToString 50 @ str ''!''
      = str ''Number must be between 1 and 50!''"
    by (simp add: numberToString_def digitsOf.simps str_def)
  show ?thesis
    using rejected_guess_consumes_nothing [OF h(1-4), of "str ''abc''" "str ''abc''"]
      rejected_guess_consumes_nothing [OF h(1-4), of "str ''51''" "str ''51''"]
    by (simp add: h parse_examples msg)
qed

text \<open>
  C4. The winning guess. In the DOM script it counts the attempt, deactivates the
  session, adds \<open>baseScore\<close> (plus \<open>bonusScore\<close> when the attempts are within
  \<open>bonusThreshold\<close>) to \<open>totalScore\<close>, appends the target with the check mark to the
  history and schedules the result screen with the score and the bonus flag
  (\<open>script_correct_guess_wins\<close>); the React component computes the same score, history
  entry and result (\<open>component_correct_guess\<close>). But the component does not deactivate
  the session: after the winning guess of a hard game with target 7 the game screen is
  still rendered, and a following guess 8 is evaluated as a miss, with a second attempt
  counted and a second history entry.
\<close>

theorem component_win_leaves_session_open:
  "timeoutsR (hardGameAfter [''7'']) = [(True, 15, True)]
   \<and> gameRendered (hardGameAfter [''7''])
   \<and> attemptsUsedR (hardGameAfter [''7'', ''8'']) = 2
   \<and> guessHistoryR (hardGameAfter [''7'', ''8'']) = [(7, hintCorrect), (8, hintDown)]
   \<and> snd (feedbackMessage (hardGameAfter [''7'', ''8''])) = info"
  by (simp add: react_defs evals Let_def)

text \<open>
  C5. The last wrong guess. In the DOM script it deactivates the session, leaves
  \<open>totalScore\<close> as it is, appends the guess with the ballot x, a hint distinct from
  both arrows (\<open>hints_distinct\<close>), and schedules the result screen as lost
  (\<open>script_last_wrong_guess_loses\<close>); the React component records the same entry and
  result (\<open>component_last_wrong_guess\<close>). But the component does not mark the session
  inactive: after the fifth wrong guess of a hard game with target 7 the game screen
  is still rendered, and a sixth guess 7 submitted before the timeout runs wins 10
  points.
\<close>

theorem component_loss_leaves_session_open:
  "guessHistoryR (hardGameAfter [''1'', ''2'', ''3'', ''4'', ''5''])
     = [(1, hintUp), (2, hintUp), (3, hintUp), (4, hintUp), (5, hintExhausted)]
   \<and> timeoutsR (hardGameAfter [''1'', ''2'', ''3'', ''4'', ''5'']) = [(False, 0, False)]
   \<and> gameRendered (hardGameAfter [''1'', ''2'', ''3'', ''4'', ''5''])
   \<and> totalScoreR (hardGameAfter [''1'', ''2'', ''3'', ''4'', ''5'', ''7'']) = 10
   \<and> timeoutsR (hardGameAfter [''1'', ''2'', ''3'', ''4'', ''5'', ''7''])
     = [(False, 0, False), (True, 10, False)]"
  by (simp add: react_defs evals Let_def)

text \<open>
  C6. A wrong guess with attempts remaining. For an in-range guess \<open>v\<close> that is not
  the target \<open>t\<close>, with at least one attempt left after it, the hint appended to the
  history with the guess is the up arrow exactly when \<open>v < t\<close> and the down arrow
  exactly when \<open>t < v\<close>; the feedback is a warning when at most 2 attempts are left and
  an info otherwise; the attempt is counted and the DOM script's session stays active.
  Both implementations.
\<close>

theorem miss_gives_direction:
  assumes "isGameActive p" and "currentLevel p = Some l" and "targetNumber p = Some t"
    and "parseInt (inputValue p) = Some v"
    and "currentLevelR g = Some l" and "targetNumberR g = Some t"
    and "parseInt (guessInput g) = Some v"
    and "min_cfg (LEVELS l) \<le> v" and "v \<le> max_cfg (LEVELS l)" and "v \<noteq> t"
    and "attemptsUsed p + 1 < maxAttempts (LEVELS l)"
    and "attemptsUsedR g + 1 < maxAttempts (LEVELS l)"
  shows
    "(let hint = (if v < t then hintUp else hintDown) in
      (hint = hintUp \<longleftrightarrow> v < t) \<and> (hint = hintDown \<longleftrightarrow> t < v)
      \<and> (\<exists>p'. makeGuess p = Inr p'
            \<and> historyChips p' = historyChips p @ [chipText v hint]
            \<and> feedbackClass p' =
                (if maxAttempts (LEVELS l) - attemptsUsed p' \<le> 2
                 then str ''feedback-message warning'' else str ''feedback-message info'')
            \<and> attemptsUsed p' = attemptsUsed p + 1
            \<and> isGameActive p')
      \<and> guessHistoryR (handleGuess g) = guessHistoryR g @ [(v, hint)]
      \<and> snd (feedbackMessage (handleGuess g)) =
           (if maxAttempts (LEVELS l) - attemptsUsedR (handleGuess g) \<le> 2
            then warning else info)
      \<and> attemptsUsedR (handleGuess g) = attemptsUsedR g + 1)"
proof -
  have cls: "str ''feedback-message '' @ str ''warning'' = str ''feedback-message warning''"
    "str ''feedback-message '' @ str ''info'' = str ''feedback-message info''"
    by (simp_all add: str_def)
  have dom: "makeGuess p =
      Inr ((handleIncorrectGuess v (LEVELS l) (p\<lparr>attemptsUsed := attemptsUsed p + 1\<rparr>))
             \<lparr>inputValue := []\<rparr>)"
    using assms by (intro makeGuess_incorrect) auto
  have left: "maxAttempts (LEVELS l) - attemptsUsed (p\<lparr>attemptsUsed := attemptsUsed p + 1\<rparr>) \<noteq> 0"
    using assms(11) by simp
  have tgt: "targetNumber (p\<lparr>attemptsUsed := attemptsUsed p + 1\<rparr>) = Some t"
    using assms(3) by simp
  have react: "handleGuess g =
      (handleIncorrectGuessR t v (attemptsUsedR g + 1) (LEVELS l)
         (g\<lparr>attemptsUsedR := attemptsUsedR g + 1\<rparr>))\<lparr>guessInput := []\<rparr>"
    using assms by (intro handleGuess_incorrect) auto
  have leftR: "maxAttempts (LEVELS l) - (attemptsUsedR g + 1) \<noteq> 0"
    using assms(12) by simp
  show ?thesis
    unfolding Let_def dom react
    using assms(1,10) left leftR hints_distinct(1)
    by (simp add: handleIncorrectGuess_miss [OF left tgt] handleIncorrectGuessR_def
        Let_def cls)
qed

text \<open>
  At the easy game with target 25, the guess 10: up arrow, 9 attempts left, info.
\<close>

theorem miss_gives_direction_witness:
  "makeGuess (easyPage (str ''10'')) =
     Inr ((easyPage [])\<lparr>attemptsUsed := 1,
            feedbackText := str ''Your guess (10) is lower than the number! 9 attempts remaining'',
            feedbackClass := str ''feedback-message info'',
            historyChips := [str ''10 '' @ hintUp]\<rparr>)
   \<and> guessHistoryR (handleGuess (easyGame (str ''10''))) = [(10, hintUp)]
   \<and> snd (feedbackMessage (handleGuess (easyGame (str ''10'')))) = info
   \<and> attemptsUsedR (handleGuess (easyGame (str ''10''))) = 1"
proof -
  have h: "isGameActive (easyPage raw)" "currentLevel (easyPage raw) = Some easy"
    "targetNumber (easyPage raw) = Some 25"
    "currentLevelR (easyGame raw) = Some easy" "targetNumberR (easyGame raw) = Some 25"
    "inputValue (easyPage raw) = raw" "guessInput (easyGame raw) = raw" for raw
    by (simp_all add: easyPage_eval easyGame_eval)
  have m: "makeGuess (easyPage (str ''10'')) =
     Inr ((easyPage [])\<lparr>attemptsUsed := 1,
            feedbackText := str ''Your guess (10) is lower than the number! 9 attempts remaining'',
            feedbackClass := str ''feedback-message info'',
            historyChips := [str ''10 '' @ hintUp]\<rparr>)"
    by (simp add: easyPage_eval makeGuess_def handleIncorrectGuess_def Let_def dom_ui
        lessThanNullable_def hintMessage_def chipText_def attemptWord_def evals)
  have "let hint = (if (10::int) < 25 then hintUp else hintDown) in
      (hint = hintUp \<longleftrightarrow> (10::int) < 25) \<and> (hint = hintDown \<longleftrightarrow> (25::int) < 10)
      \<and> (\<exists>p'. makeGuess (easyPage (str ''10'')) = Inr p'
            \<and> historyChips p' = historyChips (easyPage (str ''10'')) @ [chipText 10 hint]
            \<and> feedbackClass p' =
                (if maxAttempts (LEVELS easy) - attemptsUsed p' \<le> 2
                 then str ''feedback-message warning'' else str ''feedback-message info'')
            \<and> attemptsUsed p' = attemptsUsed (easyPage (str ''10'')) + 1
            \<and> isGameActive p')
      \<and> guessHistoryR (handleGuess (easyGame (str ''10'')))
          = guessHistoryR (easyGame (str ''10'')) @ [(10, hint)]
      \<and> snd (feedbackMessage (handleGuess (easyGame (str ''10'')))) =
           (if maxAttempts (LEVELS easy) - attemptsUsedR (handleGuess (easyGame (str ''10''))) \<le> 2
            then warning else info)
      \<and> attemptsUsedR (handleGuess (easyGame (str ''10'')))
          = attemptsUsedR (easyGame (str ''10'')) + 1"
    by (rule miss_gives_direction [where l = easy])
      (simp_all add: h parse_examples easyPage_eval easyGame_eval)
  then show ?thesis
    using m by (simp add: Let_def easyGame_eval)
qed






text \<open>
  C9. Resetting the score: once the dialog is confirmed, \<open>resetTotalScore\<close> sets
  \<open>totalScore\<close> to 0 whatever it was, and the level, the target, \<open>attemptsUsed\<close>, the
  history and the active flag are as before (the whole page is, but for the score).
  Declined, it changes nothing.
\<close>

theorem resetTotalScore_frame:
  "totalScore (resetTotalScore True p) = 0
   \<and> currentLevel (resetTotalScore True p) = currentLevel p
   \<and> targetNumber (resetTotalScore True p) = targetNumber p
   \<and> attemptsUsed (resetTotalScore True p) = attemptsUsed p
   \<and> guessHistory (resetTotalScore True p) = guessHistory p
   \<and> historyChips (resetTotalScore True p) = historyChips p
   \<and> isGameActive (resetTotalScore True p) = isGameActive p
   \<and> resetTotalScore True p = p\<lparr>totalScore := 0\<rparr>
   \<and> resetTotalScore False p = p"
  by (simp add: resetTotalScore_def)

text \<open>
  C10. The history is as long as the attempts counted. Along every sequence of events
  after a \<open>startGame\<close>, the number of history entries equals \<open>attemptsUsed\<close>;
  \<open>startGame\<close> sets both to zero; a guess adds one to both exactly when the session
  accepts guesses and the input is a number within the bounds of the level (a win, a
  loss or a miss), and changes neither otherwise. Both implementations.
\<close>

theorem history_length_is_attemptsUsed:
  "int (length (historyChips (run (startGame l u p) es)))
     = attemptsUsed (run (startGame l u p) es)
   \<and> int (length (guessHistoryR (runR (startGameR l u g) esR)))
     = attemptsUsedR (runR (startGameR l u g) esR)
   \<and> attemptsUsed (startGame l u p) = 0 \<and> historyChips (startGame l u p) = []
   \<and> attemptsUsedR (startGameR l u g) = 0 \<and> guessHistoryR (startGameR l u g) = []
   \<and> attemptsUsed (step q MakeGuess) =
       attemptsUsed q
         + (if isGameActive q \<and> consumesAttempt (currentLevel q) (inputValue q) then 1 else 0)
   \<and> length (historyChips (step q MakeGuess)) =
       length (historyChips q)
         + (if isGameActive q \<and> consumesAttempt (currentLevel q) (inputValue q) then 1 else 0)
   \<and> attemptsUsedR (handleGuess h) =
       attemptsUsedR h
         + (if targetNumberR h \<noteq> None \<and> consumesAttempt (currentLevelR h) (guessInput h)
            then 1 else 0)
   \<and> length (guessHistoryR (handleGuess h)) =
       length (guessHistoryR h)
         + (if targetNumberR h \<noteq> None \<and> consumesAttempt (currentLevelR h) (guessInput h)
            then 1 else 0)"
proof -
  have a: "int (length (historyChips (run (startGame l u p) es)))
     = attemptsUsed (run (startGame l u p) es)"
    by (rule run_keeps_count) (simp add: startGame_counts)
  have b: "int (length (guessHistoryR (runR (startGameR l u g) esR)))
     = attemptsUsedR (runR (startGameR l u g) esR)"
    by (rule runR_keeps_count) (simp add: startGameR_counts)
  show ?thesis
    using a b startGame_counts [of l u p] startGameR_counts [of l u g]
      makeGuess_counts [of q] handleGuess_counts [of h]
    by simp
qed

end
